theory Spec2Isabelle
  imports Complex_Main
begin

section \<open>Fisheye lens projection and bounding boxes (\<open>spherical_objects.py\<close>)\<close>

text \<open>
  A shallow embedding of \<open>src/spherical_objects.py\<close>.

  Numbers. Python's numbers (the \<open>int\<close> pixel coordinates of the boxes and the
  \<open>float\<close> results of the lens model) are embedded into \<open>real\<close>: an \<open>int\<close> is
  the real of the same value, \<open>/\<close> is real division, \<open>//\<close> is the floor of the
  quotient (which on integral operands is Python's integer floor division), and
  \<open>math.sqrt\<close>, \<open>math.sin\<close>, \<open>math.cos\<close>, \<open>math.acos\<close> are the real functions on
  their domains. Rounding of IEEE doubles is therefore not part of the model.

  Errors. Every \<open>raise\<close> and failing \<open>assert\<close> of the source, and the exceptions of
  the built-ins it calls (\<open>IndexError\<close> of an index out of range,
  \<open>ValueError: math domain error\<close> of \<open>math.acos\<close>, \<open>ZeroDivisionError\<close> of \<open>/\<close>,
  \<open>ValueError\<close> of \<open>range\<close> with step zero) are values \<open>Inl e\<close> of a sum type.
\<close>

subsection \<open>Exceptions\<close>

datatype error =
    AssertionError string
  | ValueError string
  | ZeroDivisionError
  | IndexError
  | TypeError

definition err_bind :: "error + 'a \<Rightarrow> ('a \<Rightarrow> error + 'b) \<Rightarrow> error + 'b" where
  "err_bind m k = (case m of Inl e \<Rightarrow> Inl e | Inr v \<Rightarrow> k v)"

text \<open>\<open>xs[i]\<close> for a non-negative index.\<close>

definition getitem :: "'a list \<Rightarrow> nat \<Rightarrow> error + 'a" where
  "getitem xs i = (if i < length xs then Inr (xs ! i) else Inl IndexError)"

text \<open>\<open>a / b\<close> on numbers.\<close>

definition truediv :: "real \<Rightarrow> real \<Rightarrow> error + real" where
  "truediv a b = (if b = 0 then Inl ZeroDivisionError else Inr (a / b))"

text \<open>\<open>a // b\<close> on numbers, for a non-zero divisor.\<close>

definition floordiv :: "real \<Rightarrow> real \<Rightarrow> real" where
  "floordiv a b = of_int \<lfloor>a / b\<rfloor>"

text \<open>\<open>math.acos\<close> raises \<open>ValueError\<close> outside \<open>[-1, 1]\<close>.\<close>

definition math_acos :: "real \<Rightarrow> error + real" where
  "math_acos v =
     (if v < - 1 \<or> 1 < v then Inl (ValueError ''math domain error'') else Inr (arccos v))"

text \<open>\<open>str(n)\<close> of a non-negative integer, for the message of \<open>convert_point\<close>.\<close>

definition digit_char :: "nat \<Rightarrow> char" where
  "digit_char d = ''0123456789'' ! d"

fun str_nat :: "nat \<Rightarrow> string" where
  "str_nat n = (if n < 10 then [digit_char n] else str_nat (n div 10) @ [digit_char (n mod 10)])"

text \<open>\<open>range(start, stop, step)\<close> for non-negative arguments, as the list it yields.\<close>

definition py_range :: "nat \<Rightarrow> nat \<Rightarrow> nat \<Rightarrow> error + nat list" where
  "py_range start stop step =
     (if step = 0 then Inl (ValueError ''range() arg 3 must not be zero'')
      else Inr (map (\<lambda>k. start + k * step) [0 ..< (stop - start + step - 1) div step]))"

subsection \<open>Points\<close>

text \<open>
  \<open>Point2D(x, y)\<close> keeps \<open>x\<close>, \<open>y\<close> and the list \<open>point = [x, y]\<close>; indexing, \<open>len\<close>
  and unpacking (\<open>x1, y1 = p\<close>) go through that list.
\<close>

datatype Point2D = Point2D (p2_x: real) (p2_y: real)

definition p2_point :: "Point2D \<Rightarrow> real list" where
  "p2_point p = [p2_x p, p2_y p]"

datatype Point3D = Point3D (p3_x: real) (p3_y: real) (p3_z: real)

definition p3_point :: "Point3D \<Rightarrow> real list" where
  "p3_point p = [p3_x p, p3_y p, p3_z p]"

subsection \<open>Bounding boxes\<close>

record CartesianBbox =
  points :: "Point2D list"
  fmt :: string

datatype 'p SphericalBbox = SphericalBbox (sph_points: "'p list")

subsection \<open>Lens constants\<close>

definition f :: real where
  "f = 714.285714"

definition center :: "real list" where
  "center = [960, 540]"

definition D :: real where
  "D = 1.082984"

subsection \<open>Lens projection\<close>

text \<open>
  \<open>math.sqrt\<close> is applied to \<open>x*x + y*y\<close> here, and below to \<open>1 - pt[2]*pt[2]\<close> after
  \<open>math.acos(pt[2])\<close> has returned, so its argument is never negative; the divisions by
  the constants \<open>f\<close> and \<open>D\<close> and the guarded division by \<open>r\<close> cannot fail either.
\<close>

definition cartesian2sphere :: "real list \<Rightarrow> error + real list" where
  "cartesian2sphere pt =
     err_bind (getitem pt 0) (\<lambda>p0.
     err_bind (getitem pt 1) (\<lambda>p1.
       let x = (p0 - center ! 0) / f;
           y = (p1 - center ! 1) / f;
           r = sqrt (x * x + y * y);
           x = (if r \<noteq> 0 then x / r else x);
           y = (if r \<noteq> 0 then y / r else y);
           r = r * D;
           sin_theta = sin r;
           x = x * sin_theta;
           y = y * sin_theta;
           z = cos r
       in Inr [x, y, z]))"

definition sphere2cartesian :: "real list \<Rightarrow> error + real list" where
  "sphere2cartesian pt =
     err_bind (getitem pt 2) (\<lambda>p2.
     err_bind (math_acos p2) (\<lambda>r.
       let r = r / D in
       err_bind (if p2 \<noteq> 1 then truediv r (sqrt (1 - p2 * p2)) else Inr r) (\<lambda>r.
       err_bind (getitem pt 0) (\<lambda>p0.
       err_bind (getitem pt 1) (\<lambda>p1.
         Inr [r * p0 * f + center ! 0, r * p1 * f + center ! 1])))))"

definition convert_point :: "real list \<Rightarrow> error + real list" where
  "convert_point point =
     (if length point = 2 then cartesian2sphere point
      else if length point = 3 then sphere2cartesian point
      else Inl (ValueError (''Expected point to be 2 or 3D, got '' @ str_nat (length point)
                  @ '' dimensions'')))"

subsection \<open>Constructors\<close>

definition CartesianBbox_init :: "Point2D list \<Rightarrow> string \<Rightarrow> error + CartesianBbox" where
  "CartesianBbox_init pts fm =
     (if fm \<notin> set [''xyxy'', ''xywh'', ''cxcywh''] then Inl (AssertionError ''Invalid bbox format'')
      else if \<not> 2 \<le> length pts then
        Inl (AssertionError
          ''Invalid number of points, cartesian bbox must have at least 2 2D points'')
      else if length pts mod 2 \<noteq> 0 then Inl (AssertionError ''the number of points must be pair'')
      else Inr \<lparr>points = pts, fmt = fm\<rparr>)"

definition SphericalBbox_init :: "'p list \<Rightarrow> error + 'p SphericalBbox" where
  "SphericalBbox_init pts =
     (if \<not> 2 \<le> length pts then
        Inl (AssertionError
          ''Invalid number of points, cartesian bbox must have at least 2 3D points'')
      else if length pts mod 2 \<noteq> 0 then Inl (AssertionError ''the number of points must be pair'')
      else Inr (SphericalBbox pts))"

subsection \<open>Normalisation to \<open>xyxy\<close>\<close>

definition from_xywh_to_xyxy :: "Point2D list \<Rightarrow> error + Point2D list" where
  "from_xywh_to_xyxy ps =
     err_bind (getitem ps 0) (\<lambda>a.
     err_bind (getitem ps 1) (\<lambda>b.
       let x1 = p2_x a; y1 = p2_y a;
           w = p2_x b; h = p2_y b;
           x2 = x1 + w;
           y2 = y1 + h
       in Inr [Point2D x1 y1, Point2D x2 y2]))"

definition from_cxcywh_to_xyxy :: "Point2D list \<Rightarrow> error + Point2D list" where
  "from_cxcywh_to_xyxy ps =
     err_bind (getitem ps 0) (\<lambda>a.
     err_bind (getitem ps 1) (\<lambda>b.
       let cx = p2_x a; cy = p2_y a;
           w = p2_x b; h = p2_y b;
           x1 = cx - floordiv w 2;
           y1 = cy - floordiv h 2;
           x2 = x1 + w;
           y2 = y1 + h
       in Inr [Point2D x1 y1, Point2D x2 y2]))"

text \<open>
  The body of the two \<open>for idx in range(0, 2, len(self.points))\<close> loops: \<open>acc\<close> is the
  local \<open>points\<close>, rebuilt as \<open>[*points, *conv([pt1, pt2])]\<close> at each index.
\<close>

fun xyxy_loop ::
  "(Point2D list \<Rightarrow> error + Point2D list) \<Rightarrow> Point2D list \<Rightarrow> nat list \<Rightarrow> Point2D list
     \<Rightarrow> error + Point2D list" where
  "xyxy_loop conv ps [] acc = Inr acc"
| "xyxy_loop conv ps (idx # idxs) acc =
     (case getitem ps idx of Inl e \<Rightarrow> Inl e | Inr pt1 \<Rightarrow>
      (case getitem ps (idx + 1) of Inl e \<Rightarrow> Inl e | Inr pt2 \<Rightarrow>
       (case conv [pt1, pt2] of Inl e \<Rightarrow> Inl e | Inr r \<Rightarrow>
          xyxy_loop conv ps idxs (acc @ r))))"

definition get_points_as_xyxy :: "CartesianBbox \<Rightarrow> error + Point2D list" where
  "get_points_as_xyxy self =
     err_bind
       (if fmt self = ''xywh'' then
          err_bind (py_range 0 2 (length (points self))) (\<lambda>idxs.
            xyxy_loop from_xywh_to_xyxy (points self) idxs [])
        else Inr (points self)) (\<lambda>pts.
       if fmt self = ''cxcywh'' then
         err_bind (py_range 0 2 (length (points self))) (\<lambda>idxs.
           xyxy_loop from_cxcywh_to_xyxy (points self) idxs [])
       else Inr pts)"

subsection \<open>Conversion of a box\<close>

text \<open>The \<open>for cartesian_point in cartesian_points\<close> loop with its \<open>append\<close>.\<close>

fun convert_loop :: "Point2D list \<Rightarrow> real list list \<Rightarrow> error + real list list" where
  "convert_loop [] spherical_points = Inr spherical_points"
| "convert_loop (cartesian_point # rest) spherical_points =
     (case convert_point (p2_point cartesian_point) of
        Inl e \<Rightarrow> Inl e
      | Inr spherical_point \<Rightarrow> convert_loop rest (spherical_points @ [spherical_point]))"

definition bbox_to_spherical :: "CartesianBbox \<Rightarrow> error + real list SphericalBbox" where
  "bbox_to_spherical cartesian =
     err_bind (get_points_as_xyxy cartesian) (\<lambda>cartesian_points.
     err_bind (convert_loop cartesian_points []) (\<lambda>spherical_points.
       SphericalBbox_init spherical_points))"

subsection \<open>The box operations on a store\<close>

text \<open>
  Python lists and box objects are mutable and are passed by reference, so the claims
  about what a call leaves unchanged are stated on a store: a list of objects, an address
  being an index, allocation appending. A \<open>CartesianBbox\<close> object holds the address of
  the list it was given (\<open>self.points = points\<close>) and its format tag. \<open>Point2D\<close> objects
  and the lists of three numbers are never written to after construction and stay values,
  as do the argument \<open>[pt1, pt2]\<close> and the result of the two conversion helpers, which are
  unpacked into the next \<open>points\<close> list at once.
\<close>

datatype obj =
    PointList "Point2D list"
  | SphereList "real list list"
  | CartesianBboxObj nat string
  | SphericalBboxObj nat

type_synonym heap = "obj list"

definition alloc :: "heap \<Rightarrow> obj \<Rightarrow> nat \<times> heap" where
  "alloc h ob = (length h, h @ [ob])"

definition lookup :: "heap \<Rightarrow> nat \<Rightarrow> obj option" where
  "lookup h a = (if a < length h then Some (h ! a) else None)"

definition CartesianBbox_init_heap :: "heap \<Rightarrow> nat \<Rightarrow> string \<Rightarrow> error + nat \<times> heap" where
  "CartesianBbox_init_heap h pref fm =
     (case lookup h pref of
        Some (PointList pts) \<Rightarrow>
          (case CartesianBbox_init pts fm of
             Inl e \<Rightarrow> Inl e
           | Inr b \<Rightarrow> Inr (alloc h (CartesianBboxObj pref fm)))
      | _ \<Rightarrow> Inl TypeError)"

text \<open>
  One iteration reads \<open>self.points[idx]\<close> and \<open>self.points[idx+1]\<close> from the store and
  binds the local \<open>points\<close> (the address \<open>acc\<close>) to a newly allocated list
  \<open>[*points, *conv([pt1, pt2])]\<close>.
\<close>

fun xyxy_loop_heap ::
  "(Point2D list \<Rightarrow> error + Point2D list) \<Rightarrow> heap \<Rightarrow> nat \<Rightarrow> nat list \<Rightarrow> nat
     \<Rightarrow> error + nat \<times> heap" where
  "xyxy_loop_heap conv h pref [] acc = Inr (acc, h)"
| "xyxy_loop_heap conv h pref (idx # idxs) acc =
     (case lookup h pref of
        Some (PointList ps) \<Rightarrow>
          (case getitem ps idx of Inl e \<Rightarrow> Inl e | Inr pt1 \<Rightarrow>
           (case getitem ps (idx + 1) of Inl e \<Rightarrow> Inl e | Inr pt2 \<Rightarrow>
            (case conv [pt1, pt2] of Inl e \<Rightarrow> Inl e | Inr r \<Rightarrow>
             (case lookup h acc of
                Some (PointList old) \<Rightarrow>
                  (case alloc h (PointList (old @ r)) of
                     (acc', h') \<Rightarrow> xyxy_loop_heap conv h' pref idxs acc')
              | _ \<Rightarrow> Inl TypeError))))
      | _ \<Rightarrow> Inl TypeError)"

text \<open>The body of one \<open>if self.fmt == ...\<close> branch: \<open>points = []\<close>, then the loop.\<close>

definition xyxy_branch_heap ::
  "(Point2D list \<Rightarrow> error + Point2D list) \<Rightarrow> heap \<Rightarrow> nat \<Rightarrow> error + nat \<times> heap" where
  "xyxy_branch_heap conv h pref =
     (case alloc h (PointList []) of
        (acc, h1) \<Rightarrow>
          (case lookup h1 pref of
             Some (PointList ps) \<Rightarrow>
               err_bind (py_range 0 2 (length ps)) (\<lambda>idxs.
                 xyxy_loop_heap conv h1 pref idxs acc)
           | _ \<Rightarrow> Inl TypeError))"

definition get_points_as_xyxy_heap :: "heap \<Rightarrow> nat \<Rightarrow> error + nat \<times> heap" where
  "get_points_as_xyxy_heap h self =
     (case lookup h self of
        Some (CartesianBboxObj pref fm) \<Rightarrow>
          err_bind
            (if fm = ''xywh'' then xyxy_branch_heap from_xywh_to_xyxy h pref
             else Inr (pref, h)) (\<lambda>(pts, h2).
            if fm = ''cxcywh'' then xyxy_branch_heap from_cxcywh_to_xyxy h2 pref
            else Inr (pts, h2))
      | _ \<Rightarrow> Inl TypeError)"

text \<open>
  \<open>spherical_points.append(spherical_point)\<close> writes to the list at \<open>sp\<close> in place. The
  loop runs over the elements \<open>cps\<close> that the list \<open>cartesian_points\<close> holds when the loop
  starts; \<open>convert_loop_heap_other\<close> below shows that no iteration changes that list.
\<close>

fun convert_loop_heap :: "heap \<Rightarrow> nat \<Rightarrow> Point2D list \<Rightarrow> error + heap" where
  "convert_loop_heap h sp [] = Inr h"
| "convert_loop_heap h sp (cartesian_point # rest) =
     (case convert_point (p2_point cartesian_point) of
        Inl e \<Rightarrow> Inl e
      | Inr spherical_point \<Rightarrow>
          (case lookup h sp of
             Some (SphereList l) \<Rightarrow>
               convert_loop_heap (h[sp := SphereList (l @ [spherical_point])]) sp rest
           | _ \<Rightarrow> Inl TypeError))"

definition SphericalBbox_init_heap :: "heap \<Rightarrow> nat \<Rightarrow> error + nat \<times> heap" where
  "SphericalBbox_init_heap h sp =
     (case lookup h sp of
        Some (SphereList l) \<Rightarrow>
          (case SphericalBbox_init l of
             Inl e \<Rightarrow> Inl e
           | Inr b \<Rightarrow> Inr (alloc h (SphericalBboxObj sp)))
      | _ \<Rightarrow> Inl TypeError)"

definition bbox_to_spherical_heap :: "heap \<Rightarrow> nat \<Rightarrow> error + nat \<times> heap" where
  "bbox_to_spherical_heap h cartesian =
     (case alloc h (SphereList []) of
        (sp, h0) \<Rightarrow>
          err_bind (get_points_as_xyxy_heap h0 cartesian) (\<lambda>(cp, h1).
            (case lookup h1 cp of
               Some (PointList cps) \<Rightarrow>
                 err_bind (convert_loop_heap h1 sp cps) (\<lambda>h2. SphericalBbox_init_heap h2 sp)
             | _ \<Rightarrow> Inl TypeError)))"

subsection \<open>The specification's vocabulary\<close>

text \<open>
  The specification names the failures abstractly. In the source \<open>InvalidFormat\<close> and
  \<open>InvalidPointCount\<close> are the \<open>AssertionError\<close>s of the constructors, told apart by
  their messages; \<open>InvalidDimension\<close> is the \<open>ValueError\<close> raised by \<open>convert_point\<close>, and
  \<open>DomainError\<close> the \<open>ValueError\<close> of \<open>math.acos\<close>.
\<close>

definition fails_with :: "(error \<Rightarrow> bool) \<Rightarrow> error + 'a \<Rightarrow> bool" where
  "fails_with P r = (case r of Inl e \<Rightarrow> P e | Inr v \<Rightarrow> False)"

definition InvalidFormat :: "error \<Rightarrow> bool" where
  "InvalidFormat e = (e = AssertionError ''Invalid bbox format'')"

definition InvalidPointCount :: "error \<Rightarrow> bool" where
  "InvalidPointCount e =
     (e = AssertionError
            ''Invalid number of points, cartesian bbox must have at least 2 2D points''
      \<or> e = AssertionError
            ''Invalid number of points, cartesian bbox must have at least 2 3D points''
      \<or> e = AssertionError ''the number of points must be pair'')"

definition InvalidDimension :: "nat \<Rightarrow> error \<Rightarrow> bool" where
  "InvalidDimension n e =
     (e = ValueError (''Expected point to be 2 or 3D, got '' @ str_nat n @ '' dimensions''))"

definition DomainError :: "error \<Rightarrow> bool" where
  "DomainError e = (e = ValueError ''math domain error'')"

text \<open>
  Normalisation as the specification words it: every consecutive pair of the input is
  converted, in order.
\<close>

fun spec_every_pair ::
  "(Point2D list \<Rightarrow> error + Point2D list) \<Rightarrow> Point2D list \<Rightarrow> error + Point2D list" where
  "spec_every_pair conv (p # q # rest) =
     (case conv [p, q] of Inl e \<Rightarrow> Inl e | Inr r \<Rightarrow>
      (case spec_every_pair conv rest of Inl e \<Rightarrow> Inl e | Inr rs \<Rightarrow> Inr (r @ rs)))"
| "spec_every_pair conv ps = Inr []"

text \<open>
  The polar angle of a vector: its angle to the pole \<open>(0, 0, 1)\<close>.
\<close>

definition polar_angle :: "real list \<Rightarrow> real" where
  "polar_angle p = arccos (p ! 2 / sqrt (p ! 0 * p ! 0 + p ! 1 * p ! 1 + p ! 2 * p ! 2))"

section \<open>Properties\<close>

subsection \<open>Auxiliary facts\<close>

lemma f_pos: "0 < f"
  by (simp add: f_def)

lemma D_pos: "0 < D"
  by (simp add: D_def)

lemma py_range_0_2: "2 \<le> n \<Longrightarrow> py_range 0 2 n = Inr [0]"
proof -
  assume n: "2 \<le> n"
  then have "(2 - 0 + n - 1) div n = 1"
    by (simp add: div_eq_dividend_iff Suc_le_eq div_nat_eqI)
  with n show ?thesis by (simp add: py_range_def)
qed

lemma xyxy_loop_first:
  assumes "2 \<le> length ps"
  shows "xyxy_loop conv ps [0] [] = conv [ps ! 0, ps ! 1]"
proof -
  from assms have "0 < length ps" "Suc 0 < length ps" by auto
  then have "getitem ps 0 = Inr (ps ! 0)" "getitem ps (0 + 1) = Inr (ps ! 1)"
    by (simp_all add: getitem_def)
  then show ?thesis by (cases "conv [ps ! 0, ps ! 1]") simp_all
qed

text \<open>
  With at least two points \<open>range(0, 2, len(self.points))\<close> yields the index \<open>0\<close> only, so
  the loops run once, on the first pair.
\<close>

lemma get_points_as_xyxy_eq:
  assumes "2 \<le> length (points b)"
  shows "get_points_as_xyxy b =
     (if fmt b = ''xywh'' then from_xywh_to_xyxy [points b ! 0, points b ! 1]
      else if fmt b = ''cxcywh'' then from_cxcywh_to_xyxy [points b ! 0, points b ! 1]
      else Inr (points b))"
proof -
  have conv: "\<exists>v. from_xywh_to_xyxy [p, q] = Inr v" for p q
    by (simp add: from_xywh_to_xyxy_def getitem_def err_bind_def Let_def)
  show ?thesis
    using assms conv[of "points b ! 0" "points b ! 1"]
    by (auto simp add: get_points_as_xyxy_def py_range_0_2 xyxy_loop_first err_bind_def
        simp del: xyxy_loop.simps)
qed

text \<open>
  So a box of one pair is normalised as the specification words it, and a box of more
  pairs in \<open>xywh\<close> or \<open>cxcywh\<close> format still yields two points.
\<close>

lemma get_points_as_xyxy_single_box:
  assumes "CartesianBbox_init [p, q] fm = Inr b"
  shows "get_points_as_xyxy b =
     (if fm = ''xywh'' then spec_every_pair from_xywh_to_xyxy [p, q]
      else if fm = ''cxcywh'' then spec_every_pair from_cxcywh_to_xyxy [p, q]
      else Inr [p, q])"
proof -
  from assms have b: "b = \<lparr>points = [p, q], fmt = fm\<rparr>"
    by (auto simp add: CartesianBbox_init_def split: if_splits)
  have "2 \<le> length (points b)" unfolding b by simp
  from get_points_as_xyxy_eq[OF this] show ?thesis unfolding b
    by (simp add: from_xywh_to_xyxy_def from_cxcywh_to_xyxy_def getitem_def err_bind_def Let_def)
qed

lemma get_points_as_xyxy_two_points:
  assumes "CartesianBbox_init pts fm = Inr b" and "fm = ''xywh'' \<or> fm = ''cxcywh''"
  shows "\<exists>c d. get_points_as_xyxy b = Inr [c, d]"
proof -
  from assms(1) have b: "b = \<lparr>points = pts, fmt = fm\<rparr>" and len: "2 \<le> length pts"
    by (auto simp add: CartesianBbox_init_def split: if_splits)
  have "2 \<le> length (points b)" unfolding b using len by simp
  from get_points_as_xyxy_eq[OF this] assms(2) show ?thesis unfolding b
    by (auto simp add: from_xywh_to_xyxy_def from_cxcywh_to_xyxy_def getitem_def err_bind_def Let_def)
qed

lemma cartesian2sphere_pair:
  "cartesian2sphere [px, py] =
     Inr (let x = (px - 960) / f; y = (py - 540) / f; r = sqrt (x * x + y * y) in
          [(if r \<noteq> 0 then x / r else x) * sin (r * D),
           (if r \<noteq> 0 then y / r else y) * sin (r * D), cos (r * D)])"
  by (simp add: cartesian2sphere_def getitem_def err_bind_def center_def Let_def)

lemma sphere2cartesian_triple:
  "sphere2cartesian [sx, sy, sz] =
     (if sz < - 1 \<or> 1 < sz then Inl (ValueError ''math domain error'')
      else if sz = 1 then Inr [arccos sz / D * sx * f + 960, arccos sz / D * sy * f + 540]
      else if sz = - 1 then Inl ZeroDivisionError
      else Inr [arccos sz / D / sqrt (1 - sz * sz) * sx * f + 960,
                arccos sz / D / sqrt (1 - sz * sz) * sy * f + 540])"
proof -
  have "sqrt (1 - sz * sz) = 0 \<longleftrightarrow> sz = 1 \<or> sz = - 1"
  proof -
    have "1 - sz * sz = (1 - sz) * (1 + sz)" by (simp add: algebra_simps)
    then show ?thesis by (auto simp add: real_sqrt_eq_zero_cancel_iff)
  qed
  then show ?thesis
    by (auto simp add: sphere2cartesian_def getitem_def err_bind_def math_acos_def truediv_def
        center_def Let_def)
qed

lemma polar_angle_unit:
  assumes "0 < r" "r * r = a * a + b * b" "0 \<le> t" "t \<le> pi"
  shows "polar_angle [a / r * sin t, b / r * sin t, cos t] = t"
proof -
  have "a / r * sin t * (a / r * sin t) + b / r * sin t * (b / r * sin t)
      = (a * a + b * b) / (r * r) * (sin t * sin t)"
    using assms(1) by (simp add: field_simps)
  also have "\<dots> = sin t * sin t" using assms(1) unfolding assms(2)[symmetric] by simp
  finally have "a / r * sin t * (a / r * sin t) + b / r * sin t * (b / r * sin t) + cos t * cos t
      = sin t * sin t + cos t * cos t" by simp
  also have "\<dots> = 1" using sin_cos_squared_add[of t] by (simp only: power2_eq_square)
  finally show ?thesis using assms(3,4) by (simp add: polar_angle_def arccos_cos)
qed

subsection \<open>Normalisation\<close>

text \<open>
  C1. The claim: for a box in \<open>xywh\<close> or \<open>cxcywh\<close> format with any even number of points,
  \<open>get_points_as_xyxy\<close> converts every consecutive pair and returns as many points as it
  was given. The source's loop runs over \<open>range(0, 2, len(self.points))\<close>, stop and step
  exchanged: on the four points of the module's own demonstration, in \<open>cxcywh\<close> format,
  it returns the two corners of the first box only, where converting every pair gives four
  points.
\<close>

theorem get_points_as_xyxy_first_pair_only:
  "err_bind
     (CartesianBbox_init [Point2D 3 5, Point2D 7 10, Point2D 7 10, Point2D 7 10] ''cxcywh'')
     get_points_as_xyxy = Inr [Point2D 0 0, Point2D 7 10]
   \<and> spec_every_pair from_cxcywh_to_xyxy [Point2D 3 5, Point2D 7 10, Point2D 7 10, Point2D 7 10]
       = Inr [Point2D 0 0, Point2D 7 10, Point2D 4 5, Point2D 11 15]"
  by (simp add: CartesianBbox_init_def get_points_as_xyxy_eq err_bind_def getitem_def
      from_cxcywh_to_xyxy_def floordiv_def)

text \<open>
  C8. A box given as \<open>xywh = (10,10,5,5)\<close> and as \<open>cxcywh = (12,12,5,5)\<close> normalises to the
  corners \<open>(10,10)\<close>, \<open>(15,15)\<close> both ways. In general \<open>cxcywh\<close> takes the top-left corner
  as the centre minus the floor of half the size, which on integral coordinates is
  Python's integer \<open>//\<close>, and the bottom-right corner as the top-left corner plus the
  size; \<open>xywh\<close> takes the bottom-right corner as the top-left corner plus the size.
\<close>

theorem format_equivalence:
  "from_xywh_to_xyxy [Point2D 10 10, Point2D 5 5] = Inr [Point2D 10 10, Point2D 15 15]
   \<and> from_cxcywh_to_xyxy [Point2D 12 12, Point2D 5 5] = Inr [Point2D 10 10, Point2D 15 15]
   \<and> get_points_as_xyxy \<lparr>points = [Point2D 10 10, Point2D 5 5], fmt = ''xywh''\<rparr>
        = Inr [Point2D 10 10, Point2D 15 15]
   \<and> get_points_as_xyxy \<lparr>points = [Point2D 12 12, Point2D 5 5], fmt = ''cxcywh''\<rparr>
        = Inr [Point2D 10 10, Point2D 15 15]
   \<and> from_cxcywh_to_xyxy [Point2D cx cy, Point2D w h]
        = Inr [Point2D (cx - of_int \<lfloor>w / 2\<rfloor>) (cy - of_int \<lfloor>h / 2\<rfloor>),
               Point2D (cx - of_int \<lfloor>w / 2\<rfloor> + w) (cy - of_int \<lfloor>h / 2\<rfloor> + h)]
   \<and> from_cxcywh_to_xyxy [Point2D (of_int ci) (of_int cj), Point2D (of_int wi) (of_int hi)]
        = Inr [Point2D (of_int (ci - wi div 2)) (of_int (cj - hi div 2)),
               Point2D (of_int (ci - wi div 2 + wi)) (of_int (cj - hi div 2 + hi))]
   \<and> from_xywh_to_xyxy [Point2D x1 y1, Point2D w h]
        = Inr [Point2D x1 y1, Point2D (x1 + w) (y1 + h)]"
proof -
  have fl: "\<lfloor>(of_int k :: real) / 2\<rfloor> = k div 2" for k
    using floor_divide_of_int_eq[of k 2, where ?'a = real] by simp
  show ?thesis
    by (simp add: get_points_as_xyxy_eq err_bind_def getitem_def Let_def
        from_cxcywh_to_xyxy_def from_xywh_to_xyxy_def floordiv_def fl)
qed

subsection \<open>Dispatch and failures\<close>

text \<open>
  C5. \<open>convert_point\<close> is the forward transform on a point of length 2, the inverse
  transform on a point of length 3, and fails with \<open>InvalidDimension\<close> (the \<open>ValueError\<close>
  that reports the length) on every other length.
\<close>

theorem convert_point_dispatch:
  "(length p = 2 \<longrightarrow> convert_point p = cartesian2sphere p)
   \<and> (length p = 3 \<longrightarrow> convert_point p = sphere2cartesian p)
   \<and> (length p \<noteq> 2 \<and> length p \<noteq> 3
        \<longrightarrow> fails_with (InvalidDimension (length p)) (convert_point p))"
  by (simp add: convert_point_def fails_with_def InvalidDimension_def)

theorem convert_point_dispatch_witness:
  "convert_point [960, 540] = cartesian2sphere [960, 540]
   \<and> convert_point [0, 0, 1] = sphere2cartesian [0, 0, 1]
   \<and> fails_with (InvalidDimension 4) (convert_point [1, 2, 3, 4])
   \<and> convert_point [1, 2, 3, 4] = Inl (ValueError ''Expected point to be 2 or 3D, got 4 dimensions'')
   \<and> fails_with (InvalidDimension 0) (convert_point [])"
  using convert_point_dispatch[of "[960, 540]"] convert_point_dispatch[of "[0, 0, 1]"]
    convert_point_dispatch[of "[1, 2, 3, 4]"] convert_point_dispatch[of "[]"]
  by (simp add: fails_with_def InvalidDimension_def digit_char_def split: sum.splits)

text \<open>
  C6. The claim: the \<open>CartesianBbox\<close> constructor fails with \<open>InvalidFormat\<close> for every
  format outside \<open>xyxy\<close>, \<open>xywh\<close>, \<open>cxcywh\<close>, and with \<open>InvalidPointCount\<close> for every point
  list with fewer than 2 points or an odd count; the \<open>SphericalBbox\<close> constructor enforces
  the same counts. The constructor asserts the format first: one point with the format
  \<open>bogus\<close> is refused for its format, not for its count.
\<close>

theorem constructor_checks_format_first:
  "length [Point2D 0 0] < 2
   \<and> \<not> fails_with InvalidPointCount (CartesianBbox_init [Point2D 0 0] ''bogus'')"
  by (simp add: CartesianBbox_init_def fails_with_def InvalidPointCount_def)

text \<open>
  C6 as amended: the constructor fails with \<open>InvalidFormat\<close> for every unrecognised
  format, whatever the points; for a recognised format it fails with \<open>InvalidPointCount\<close>
  for every point list with fewer than 2 points or an odd count; and the \<open>SphericalBbox\<close>
  constructor fails with \<open>InvalidPointCount\<close> for every such list.
\<close>

theorem constructors_reject:
  "(fm \<notin> set [''xyxy'', ''xywh'', ''cxcywh'']
      \<longrightarrow> fails_with InvalidFormat (CartesianBbox_init pts fm))
   \<and> (fm \<in> set [''xyxy'', ''xywh'', ''cxcywh''] \<and> (length pts < 2 \<or> odd (length pts))
      \<longrightarrow> fails_with InvalidPointCount (CartesianBbox_init pts fm))
   \<and> (length (sps :: 'p list) < 2 \<or> odd (length sps)
      \<longrightarrow> fails_with InvalidPointCount (SphericalBbox_init sps))"
  by (auto simp add: CartesianBbox_init_def SphericalBbox_init_def fails_with_def
      InvalidPointCount_def InvalidFormat_def odd_iff_mod_2_eq_one)

theorem constructors_reject_witness:
  "CartesianBbox_init [Point2D 1 2, Point2D 3 4] ''bogus''
     = Inl (AssertionError ''Invalid bbox format'')
   \<and> fails_with InvalidPointCount (CartesianBbox_init [Point2D 1 2] ''xyxy'')
   \<and> fails_with InvalidPointCount
       (CartesianBbox_init [Point2D 1 2, Point2D 3 4, Point2D 5 6] ''xywh'')
   \<and> fails_with InvalidPointCount (SphericalBbox_init [Point3D 0 0 1])"
  using constructors_reject[of "''bogus''" "[Point2D 1 2, Point2D 3 4]" "[] :: Point3D list"]
    constructors_reject[of "''xyxy''" "[Point2D 1 2]" "[Point3D 0 0 1]"]
    constructors_reject[of "''xywh''" "[Point2D 1 2, Point2D 3 4, Point2D 5 6]"
      "[Point3D 0 0 1]"]
  by (simp add: fails_with_def InvalidFormat_def split: sum.splits)

text \<open>
  C7. For every 3D input whose z-coordinate lies outside \<open>[-1, 1]\<close>, \<open>sphere2cartesian\<close>
  fails with \<open>DomainError\<close>: \<open>math.acos\<close> raises before anything is computed, so no result
  is returned.
\<close>

theorem sphere2cartesian_domain_error:
  "z < - 1 \<or> 1 < z \<Longrightarrow> fails_with DomainError (sphere2cartesian [x, y, z])"
  by (simp add: sphere2cartesian_def getitem_def err_bind_def math_acos_def fails_with_def
      DomainError_def)

theorem sphere2cartesian_domain_error_witness:
  "(1 :: real) < 2
   \<and> sphere2cartesian [0, 0, 2] = Inl (ValueError ''math domain error'')
   \<and> sphere2cartesian [3, 5, - 3 / 2] = Inl (ValueError ''math domain error'')"
  using sphere2cartesian_domain_error[of 2 0 0] sphere2cartesian_domain_error[of "- 3 / 2" 3 5]
  by (simp add: fails_with_def DomainError_def split: sum.splits)

subsection \<open>The pole\<close>

text \<open>
  C10. For every 3D input whose z-coordinate is exactly 1, \<open>sphere2cartesian\<close> returns
  the principal point \<open>(cx, cy)\<close>, whatever the x and y coordinates of the input are: the
  radial scale \<open>acos(1) / D\<close> is 0.
\<close>

theorem sphere2cartesian_pole:
  "sphere2cartesian [x, y, 1] = Inr [center ! 0, center ! 1]
   \<and> sphere2cartesian [x, y, 1] = Inr [960, 540]"
  by (simp add: sphere2cartesian_def getitem_def err_bind_def math_acos_def center_def)

text \<open>
  C4. \<open>cartesian2sphere\<close> at the principal point \<open>(cx, cy)\<close> returns exactly \<open>(0, 0, 1)\<close>.
  With \<open>f = 714.285714\<close>, \<open>center = (960, 540)\<close>, \<open>D = 1.082984\<close>, \<open>bbox_to_spherical\<close> on the
  \<open>xyxy\<close> box \<open>[(960,540), (1100,600)]\<close> returns a \<open>SphericalBbox\<close> of two points, the
  first exactly \<open>(0, 0, 1)\<close>, the second at polar angle \<open>\<theta> = D * r\<close> with
  \<open>r = sqrt (((1100-960)/f)\<^sup>2 + ((600-540)/f)\<^sup>2)\<close>.
\<close>

theorem pole_fixed_point_end_to_end:
  "cartesian2sphere [center ! 0, center ! 1] = Inr [0, 0, 1]
   \<and> (let r = sqrt (((1100 - 960) / f)\<^sup>2 + ((600 - 540) / f)\<^sup>2);
          theta = D * r;
          q = [(1100 - 960) / f / r * sin theta, (600 - 540) / f / r * sin theta, cos theta]
      in err_bind (CartesianBbox_init [Point2D 960 540, Point2D 1100 600] ''xyxy'')
           bbox_to_spherical = Inr (SphericalBbox [[0, 0, 1], q])
         \<and> polar_angle q = theta)"
proof -
  define a where "a = (1100 - 960) / f"
  define b where "b = (600 - 540) / f"
  define r where "r = sqrt (a\<^sup>2 + b\<^sup>2)"
  have apos: "0 < a" unfolding a_def using f_pos by simp
  have rr: "r * r = a * a + b * b" unfolding r_def by (simp add: power2_eq_square)
  have "0 < a\<^sup>2" using apos by simp
  moreover have "0 \<le> b\<^sup>2" by simp
  ultimately have "0 < a\<^sup>2 + b\<^sup>2" by (rule add_pos_nonneg)
  then have rpos: "0 < r" unfolding r_def by simp
  have "a\<^sup>2 + b\<^sup>2 \<le> 1" unfolding a_def b_def f_def by (simp add: power2_eq_square)
  then have r1: "r \<le> 1" unfolding r_def by simp
  have t0: "0 \<le> D * r" using rpos D_pos by simp
  have "D * r \<le> D * 1" using r1 D_pos by (simp only: mult_le_cancel_left_pos)
  also have "\<dots> \<le> 2" by (simp add: D_def)
  also have "\<dots> \<le> pi" by (rule pi_ge_two)
  finally have tpi: "D * r \<le> pi" .
  have pole: "cartesian2sphere [960, 540] = Inr [0, 0, 1]"
    by (simp add: cartesian2sphere_pair)
  have snd: "cartesian2sphere [1100, 600] = Inr [a / r * sin (D * r), b / r * sin (D * r), cos (D * r)]"
    using rpos unfolding cartesian2sphere_pair Let_def r_def a_def b_def
    by (simp add: power2_eq_square mult.commute)
  have box: "err_bind (CartesianBbox_init [Point2D 960 540, Point2D 1100 600] ''xyxy'')
           bbox_to_spherical = Inr (SphericalBbox [[0, 0, 1], [a / r * sin (D * r), b / r * sin (D * r), cos (D * r)]])"
    by (simp add: CartesianBbox_init_def bbox_to_spherical_def get_points_as_xyxy_eq err_bind_def
       convert_point_def p2_point_def pole snd SphericalBbox_init_def)
  have ang: "polar_angle [a / r * sin (D * r), b / r * sin (D * r), cos (D * r)] = D * r"
    using rpos rr t0 tpi by (rule polar_angle_unit)
  show ?thesis
    using box ang pole unfolding Let_def a_def b_def r_def by (simp add: center_def)
qed

subsection \<open>The transforms in exact arithmetic\<close>

text \<open>
  Over the reals the forward transform lands exactly on the unit sphere, and the inverse
  transform undoes it exactly inside the cone \<open>r * D < pi\<close>. These are the identities
  behind the tolerances of C2 and C3; the tolerances themselves bound the rounding error of
  IEEE doubles, which this model does not contain.
\<close>

lemma cartesian2sphere_unit_sphere_exact:
  assumes "cartesian2sphere [px, py] = Inr [x, y, z]"
  shows "x * x + y * y + z * z = 1"
proof -
  define a where "a = (px - 960) / f"
  define b where "b = (py - 540) / f"
  define r where "r = sqrt (a * a + b * b)"
  show ?thesis
  proof (cases "r = 0")
    case True
    then have "a = 0" "b = 0" unfolding r_def
      by (auto simp add: real_sqrt_eq_zero_cancel_iff sum_squares_eq_zero_iff)
    with True assms show ?thesis
      unfolding cartesian2sphere_pair a_def b_def r_def Let_def by auto
  next
    case False
    have rr: "r * r = a * a + b * b" unfolding r_def by simp
    from False assms have x: "x = a / r * sin (r * D)" and y: "y = b / r * sin (r * D)" and z: "z = cos (r * D)"
      unfolding cartesian2sphere_pair a_def b_def r_def Let_def by auto
    have "x * x + y * y = (a * a + b * b) / (r * r) * (sin (r * D) * sin (r * D))"
      unfolding x y using False by (simp add: field_simps)
    also have "\<dots> = sin (r * D) * sin (r * D)" using False unfolding rr[symmetric] by simp
    finally have xy: "x * x + y * y = sin (r * D) * sin (r * D)" .
    have "sin (r * D) * sin (r * D) + cos (r * D) * cos (r * D) = 1"
      using sin_cos_squared_add[of "r * D"] by (simp only: power2_eq_square)
    with xy show ?thesis unfolding z by linarith
  qed
qed

lemma roundtrip_exact:
  assumes "sqrt (((px - 960) / f) ^ 2 + ((py - 540) / f) ^ 2) * D < pi"
  shows "err_bind (cartesian2sphere [px, py]) sphere2cartesian = Inr [px, py]"
proof -
  define a where "a = (px - 960) / f"
  define b where "b = (py - 540) / f"
  define r where "r = sqrt (a * a + b * b)"
  define t where "t = r * D"
  have r0: "0 \<le> r" unfolding r_def by simp
  have tpi: "t < pi" using assms unfolding t_def r_def a_def b_def by (simp add: power2_eq_square)
  have t0: "0 \<le> t" unfolding t_def using r0 D_pos by simp
  have fa: "a * f = px - 960" unfolding a_def using f_pos by simp
  have fb: "b * f = py - 540" unfolding b_def using f_pos by simp
  show ?thesis
  proof (cases "r = 0")
    case True
    then have ab: "a = 0" "b = 0" unfolding r_def
      by (auto simp add: real_sqrt_eq_zero_cancel_iff sum_squares_eq_zero_iff)
    then have "px = 960" "py = 540" using fa fb by auto
    then show ?thesis
      by (simp add: cartesian2sphere_pair sphere2cartesian_triple err_bind_def)
  next
    case False
    then have rpos: "0 < r" using r0 by simp
    then have tpos: "0 < t" unfolding t_def using D_pos by simp
    have c2s: "cartesian2sphere [px, py] = Inr [a / r * sin t, b / r * sin t, cos t]"
      using False unfolding cartesian2sphere_pair a_def b_def r_def t_def Let_def by simp
    have spos: "0 < sin t" using tpos tpi by (rule sin_gt_zero)
    have cne: "cos t \<noteq> 1" "cos t \<noteq> - 1" "\<not> cos t < - 1" "\<not> 1 < cos t"
    proof -
      have "sin t * sin t + cos t * cos t = 1" using sin_cos_squared_add[of t] by (simp add: power2_eq_square)
      with spos show "cos t \<noteq> 1" "cos t \<noteq> - 1" by auto
      show "\<not> cos t < - 1" using cos_ge_minus_one[of t] by linarith
      show "\<not> 1 < cos t" using cos_le_one[of t] by linarith
    qed
    have ac: "arccos (cos t) = t" using t0 tpi by (simp add: arccos_cos)
    have sq: "sqrt (1 - cos t * cos t) = sin t"
    proof -
      have "1 - cos t * cos t = sin t * sin t"
        using sin_cos_squared_add[of t] by (simp add: power2_eq_square)
      then show ?thesis using spos by simp
    qed
    have td: "t / D = r" unfolding t_def using D_pos by simp
    have "sphere2cartesian [a / r * sin t, b / r * sin t, cos t] =
        Inr [r / sin t * (a / r * sin t) * f + 960, r / sin t * (b / r * sin t) * f + 540]"
      unfolding sphere2cartesian_triple using cne by (simp add: ac sq td)
    also have "r / sin t * (a / r * sin t) * f = px - 960"
      using spos rpos fa by simp
    also have "r / sin t * (b / r * sin t) * f = py - 540"
      using spos rpos fb by simp
    finally show ?thesis unfolding c2s by (simp add: err_bind_def)
  qed
qed

subsection \<open>The store: what a call leaves unchanged\<close>

text \<open>
  The operations on the store compute what the operations on values compute, and only
  ever extend the store; \<open>append\<close> writes to the list that \<open>bbox_to_spherical\<close> has
  allocated itself.
\<close>

lemma lookup_append_old: "a < length h \<Longrightarrow> lookup (h @ ys) a = lookup h a"
  by (simp add: lookup_def nth_append)

lemma lookup_Some_less: "lookup h a = Some ob \<Longrightarrow> a < length h"
  by (simp add: lookup_def split: if_splits)

lemma lookup_append_Some: "lookup h a = Some ob \<Longrightarrow> lookup (h @ ys) a = Some ob"
  by (simp add: lookup_def nth_append split: if_splits)

lemma lookup_alloc_new: "lookup (h @ [ob]) (length h) = Some ob"
  by (simp add: lookup_def)

lemma xyxy_loop_heap_refines:
  assumes "lookup h pref = Some (PointList ps)" and "lookup h acc = Some (PointList old)"
  shows "case xyxy_loop conv ps idxs old of
           Inl e \<Rightarrow> xyxy_loop_heap conv h pref idxs acc = Inl e
         | Inr out \<Rightarrow>
             \<exists>r ys. xyxy_loop_heap conv h pref idxs acc = Inr (r, h @ ys)
               \<and> lookup (h @ ys) r = Some (PointList out)
               \<and> (r = acc \<and> ys = [] \<or> length h \<le> r)"
  using assms
proof (induction idxs arbitrary: h acc old)
  case Nil
  then show ?case by simp
next
  case (Cons idx idxs)
  show ?case
  proof (cases "getitem ps idx")
    case (Inl e)
    with Cons.prems show ?thesis by simp
  next
    case pt1: (Inr pt1)
    show ?thesis
    proof (cases "getitem ps (idx + 1)")
      case (Inl e)
      with Cons.prems pt1 show ?thesis by simp
    next
      case pt2: (Inr pt2)
      show ?thesis
      proof (cases "conv [pt1, pt2]")
        case (Inl e)
        with Cons.prems pt1 pt2 show ?thesis by simp
      next
        case (Inr r)
        let ?h' = "h @ [PointList (old @ r)]"
        have step: "xyxy_loop_heap conv h pref (idx # idxs) acc
            = xyxy_loop_heap conv ?h' pref idxs (length h)"
          using Cons.prems pt1 pt2 Inr by (simp add: alloc_def)
        have pure: "xyxy_loop conv ps (idx # idxs) old = xyxy_loop conv ps idxs (old @ r)"
          using pt1 pt2 Inr by simp
        have p': "lookup ?h' pref = Some (PointList ps)"
          using Cons.prems(1) by (rule lookup_append_Some)
        have a': "lookup ?h' (length h) = Some (PointList (old @ r))"
          by (rule lookup_alloc_new)
        note IH = Cons.IH[OF p' a']
        show ?thesis
        proof (cases "xyxy_loop conv ps idxs (old @ r)")
          case (Inl e)
          with IH show ?thesis unfolding pure step by simp
        next
          case out: (Inr out)
          with IH obtain r' ys where
            "xyxy_loop_heap conv ?h' pref idxs (length h) = Inr (r', ?h' @ ys)"
            "lookup (?h' @ ys) r' = Some (PointList out)"
            "r' = length h \<and> ys = [] \<or> length ?h' \<le> r'"
            by auto
          then have "xyxy_loop_heap conv h pref (idx # idxs) acc = Inr (r', h @ ([PointList (old @ r)] @ ys))
               \<and> lookup (h @ ([PointList (old @ r)] @ ys)) r' = Some (PointList out)
               \<and> length h \<le> r'"
            unfolding step by auto
          then show ?thesis unfolding pure out by (simp del: xyxy_loop_heap.simps)
        qed
      qed
    qed
  qed
qed


lemma xyxy_branch_heap_refines:
  assumes "lookup h pref = Some (PointList ps)"
  shows "case err_bind (py_range 0 2 (length ps)) (\<lambda>idxs. xyxy_loop conv ps idxs []) of
           Inl e \<Rightarrow> xyxy_branch_heap conv h pref = Inl e
         | Inr out \<Rightarrow>
             \<exists>r ys. xyxy_branch_heap conv h pref = Inr (r, h @ ys)
               \<and> lookup (h @ ys) r = Some (PointList out) \<and> length h \<le> r"
proof (cases "py_range 0 2 (length ps)")
  case (Inl e)
  with assms show ?thesis
    by (simp add: xyxy_branch_heap_def alloc_def err_bind_def lookup_append_Some)
next
  case (Inr idxs)
  let ?h1 = "h @ [PointList []]"
  have p1: "lookup ?h1 pref = Some (PointList ps)" using assms by (rule lookup_append_Some)
  have a1: "lookup ?h1 (length h) = Some (PointList [])" by (rule lookup_alloc_new)
  have br: "xyxy_branch_heap conv h pref = xyxy_loop_heap conv ?h1 pref idxs (length h)"
    using Inr p1 by (simp add: xyxy_branch_heap_def alloc_def err_bind_def)
  have pure: "err_bind (py_range 0 2 (length ps)) (\<lambda>idxs. xyxy_loop conv ps idxs [])
      = xyxy_loop conv ps idxs []"
    using Inr by (simp add: err_bind_def)
  note R = xyxy_loop_heap_refines[OF p1 a1, of conv idxs]
  show ?thesis
  proof (cases "xyxy_loop conv ps idxs []")
    case (Inl e)
    with R show ?thesis unfolding pure br by simp
  next
    case out: (Inr out)
    with R obtain r ys where
      "xyxy_loop_heap conv ?h1 pref idxs (length h) = Inr (r, ?h1 @ ys)"
      "lookup (?h1 @ ys) r = Some (PointList out)"
      "r = length h \<and> ys = [] \<or> length ?h1 \<le> r"
      by auto
    then have "xyxy_branch_heap conv h pref = Inr (r, h @ ([PointList []] @ ys))
        \<and> lookup (h @ ([PointList []] @ ys)) r = Some (PointList out) \<and> length h \<le> r"
      unfolding br by auto
    then show ?thesis unfolding pure out by (simp del: xyxy_loop_heap.simps)
  qed
qed

lemma get_points_as_xyxy_heap_refines:
  assumes "lookup h self = Some (CartesianBboxObj pref fm)"
    and "lookup h pref = Some (PointList ps)"
  shows "case get_points_as_xyxy \<lparr>points = ps, fmt = fm\<rparr> of
           Inl e \<Rightarrow> get_points_as_xyxy_heap h self = Inl e
         | Inr out \<Rightarrow>
             \<exists>r ys. get_points_as_xyxy_heap h self = Inr (r, h @ ys)
               \<and> lookup (h @ ys) r = Some (PointList out)
               \<and> (if fm = ''xywh'' \<or> fm = ''cxcywh'' then length h \<le> r else r = pref \<and> ys = [])"
proof -
  consider (xywh) "fm = ''xywh''" | (cxcywh) "fm = ''cxcywh''"
    | (other) "fm \<noteq> ''xywh''" "fm \<noteq> ''cxcywh''" by blast
  then show ?thesis
  proof cases
    case xywh
    have pure: "get_points_as_xyxy \<lparr>points = ps, fmt = fm\<rparr>
        = err_bind (py_range 0 2 (length ps)) (\<lambda>idxs. xyxy_loop from_xywh_to_xyxy ps idxs [])"
      using xywh by (simp add: get_points_as_xyxy_def err_bind_def split: sum.splits)
    have hp: "get_points_as_xyxy_heap h self = xyxy_branch_heap from_xywh_to_xyxy h pref"
      using xywh assms(1) by (simp add: get_points_as_xyxy_heap_def err_bind_def split: sum.splits)
    show ?thesis unfolding pure hp
      using xyxy_branch_heap_refines[OF assms(2), of from_xywh_to_xyxy] xywh
      by (simp split: sum.splits)
  next
    case cxcywh
    have pure: "get_points_as_xyxy \<lparr>points = ps, fmt = fm\<rparr>
        = err_bind (py_range 0 2 (length ps)) (\<lambda>idxs. xyxy_loop from_cxcywh_to_xyxy ps idxs [])"
      using cxcywh by (simp add: get_points_as_xyxy_def err_bind_def)
    have hp: "get_points_as_xyxy_heap h self = xyxy_branch_heap from_cxcywh_to_xyxy h pref"
      using cxcywh assms(1) by (simp add: get_points_as_xyxy_heap_def err_bind_def)
    show ?thesis unfolding pure hp
      using xyxy_branch_heap_refines[OF assms(2), of from_cxcywh_to_xyxy] cxcywh
      by (simp split: sum.splits)
  next
    case other
    have pure: "get_points_as_xyxy \<lparr>points = ps, fmt = fm\<rparr> = Inr ps"
      using other by (simp add: get_points_as_xyxy_def err_bind_def)
    have hp: "get_points_as_xyxy_heap h self = Inr (pref, h)"
      using other assms(1) by (simp add: get_points_as_xyxy_heap_def err_bind_def)
    show ?thesis unfolding pure hp using other assms(2) by simp
  qed
qed


text \<open>
  In \<open>xyxy\<close> format (neither \<open>if\<close> is taken) the method returns the address held by the
  box, and allocates nothing; in the other two formats the result is a list allocated
  by the call (\<open>get_points_as_xyxy_heap_refines\<close>), as in this run.
\<close>

lemma get_points_as_xyxy_heap_alias:
  assumes "lookup h self = Some (CartesianBboxObj pref fm)" and "fm \<noteq> ''xywh''" and "fm \<noteq> ''cxcywh''"
  shows "get_points_as_xyxy_heap h self = Inr (pref, h)"
  using assms by (simp add: get_points_as_xyxy_heap_def err_bind_def)

lemma get_points_as_xyxy_heap_example: "get_points_as_xyxy_heap
       [PointList [Point2D 10 10, Point2D 5 5], CartesianBboxObj 0 ''xywh''] 1
     = Inr (3, [PointList [Point2D 10 10, Point2D 5 5], CartesianBboxObj 0 ''xywh'',
                PointList [], PointList [Point2D 10 10, Point2D 15 15]])"
  by (simp add: get_points_as_xyxy_heap_def xyxy_branch_heap_def lookup_def alloc_def
      err_bind_def py_range_0_2 getitem_def from_xywh_to_xyxy_def)

lemma lookup_update_same:
  "a < length h \<Longrightarrow> lookup (h[a := ob]) a = Some ob"
  by (simp add: lookup_def)

lemma lookup_update_other:
  "a \<noteq> b \<Longrightarrow> lookup (h[b := ob]) a = lookup h a"
  by (simp add: lookup_def)

lemma convert_loop_heap_refines:
  assumes "lookup h sp = Some (SphereList l)"
  shows "case convert_loop cps l of
           Inl e \<Rightarrow> convert_loop_heap h sp cps = Inl e
         | Inr out \<Rightarrow> convert_loop_heap h sp cps = Inr (h[sp := SphereList out])"
  using assms
proof (induction cps arbitrary: h l)
  case Nil
  then have "sp < length h" "h ! sp = SphereList l"
    by (simp_all add: lookup_def split: if_splits)
  then have "h[sp := SphereList l] = h" by (metis list_update_id)
  then show ?case by simp
next
  case (Cons p cps)
  show ?case
  proof (cases "convert_point (p2_point p)")
    case (Inl e)
    then show ?thesis by simp
  next
    case (Inr s)
    let ?h' = "h[sp := SphereList (l @ [s])]"
    have sp: "sp < length h" using Cons.prems by (rule lookup_Some_less)
    have l': "lookup ?h' sp = Some (SphereList (l @ [s]))"
      using sp by (rule lookup_update_same)
    have step: "convert_loop_heap h sp (p # cps) = convert_loop_heap ?h' sp cps"
      using Inr Cons.prems by simp
    have pure: "convert_loop (p # cps) l = convert_loop cps (l @ [s])"
      using Inr by simp
    show ?thesis unfolding step pure
      using Cons.IH[OF l'] by (simp split: sum.splits)
  qed
qed

lemma convert_loop_heap_other:
  "convert_loop_heap h sp cps = Inr h' \<Longrightarrow> a \<noteq> sp \<Longrightarrow> lookup h' a = lookup h a"
proof (induction cps arbitrary: h)
  case Nil
  then show ?case by simp
next
  case (Cons p cps)
  from Cons.prems(1) obtain s l where
    "convert_loop_heap (h[sp := SphereList (l @ [s])]) sp cps = Inr h'"
    by (auto split: sum.splits option.splits obj.splits)
  from Cons.IH[OF this Cons.prems(2)] Cons.prems(2) show ?case
    by (simp add: lookup_update_other)
qed

lemma cartesian2sphere_total: "\<exists>q. cartesian2sphere [px, py] = Inr q"
  by (simp add: cartesian2sphere_def getitem_def err_bind_def Let_def)

lemma convert_loop_total:
  "\<exists>out. convert_loop cps l = Inr out \<and> length out = length l + length cps"
proof (induction cps arbitrary: l)
  case Nil
  then show ?case by simp
next
  case (Cons p cps)
  obtain q where q: "convert_point (p2_point p) = Inr q"
    using cartesian2sphere_total[of "p2_x p" "p2_y p"]
    by (auto simp add: convert_point_def p2_point_def)
  from Cons.IH[of "l @ [q]"] q show ?case by auto
qed


lemma bbox_to_spherical_heap_refines:
  assumes "lookup h self = Some (CartesianBboxObj pref fm)"
    and "lookup h pref = Some (PointList ps)"
  shows "case bbox_to_spherical \<lparr>points = ps, fmt = fm\<rparr> of
           Inl e \<Rightarrow> bbox_to_spherical_heap h self = Inl e
         | Inr sb \<Rightarrow>
             \<exists>r h'. bbox_to_spherical_heap h self = Inr (r, h')
               \<and> take (length h) h' = h
               \<and> lookup h' r = Some (SphericalBboxObj (length h))
               \<and> lookup h' (length h) = Some (SphereList (sph_points sb))
               \<and> length h < r"
proof -
  let ?h0 = "h @ [SphereList []]"
  let ?b = "\<lparr>points = ps, fmt = fm\<rparr>"
  have s0: "lookup ?h0 self = Some (CartesianBboxObj pref fm)"
    using assms(1) by (rule lookup_append_Some)
  have p0: "lookup ?h0 pref = Some (PointList ps)"
    using assms(2) by (rule lookup_append_Some)
  note G = get_points_as_xyxy_heap_refines[OF s0 p0]
  show ?thesis
  proof (cases "get_points_as_xyxy ?b")
    case (Inl e)
    with G show ?thesis
      by (simp add: bbox_to_spherical_def bbox_to_spherical_heap_def alloc_def err_bind_def)
  next
    case out: (Inr out)
    with G obtain cp ys where
      g: "get_points_as_xyxy_heap ?h0 self = Inr (cp, ?h0 @ ys)"
      and cp: "lookup (?h0 @ ys) cp = Some (PointList out)"
      by auto
    let ?h1 = "?h0 @ ys"
    have sp1: "lookup ?h1 (length h) = Some (SphereList [])"
      using lookup_alloc_new[of h "SphereList []"] by (rule lookup_append_Some)
    have hp: "bbox_to_spherical_heap h self
        = err_bind (convert_loop_heap ?h1 (length h) out) (\<lambda>h2. SphericalBbox_init_heap h2 (length h))"
      using g cp by (simp add: bbox_to_spherical_heap_def alloc_def err_bind_def)
    have pure: "bbox_to_spherical ?b
        = err_bind (convert_loop out []) (\<lambda>sps. SphericalBbox_init sps)"
      using out by (simp add: bbox_to_spherical_def err_bind_def)
    note C = convert_loop_heap_refines[OF sp1, of out]
    show ?thesis
    proof (cases "convert_loop out []")
      case (Inl e)
      with C show ?thesis unfolding hp pure by (simp add: err_bind_def)
    next
      case sps: (Inr sps)
      define h2 where "h2 = ?h1[length h := SphereList sps]"
      from sps C have c: "convert_loop_heap ?h1 (length h) out = Inr h2"
        unfolding h2_def by simp
      have sp2: "lookup h2 (length h) = Some (SphereList sps)"
        unfolding h2_def by (rule lookup_update_same) simp
      have t2: "take (length h) h2 = h" unfolding h2_def by simp
      have l3: "length h < length h2" unfolding h2_def by simp
      have hp2: "bbox_to_spherical_heap h self = SphericalBbox_init_heap h2 (length h)"
        unfolding hp c by (simp add: err_bind_def)
      have pure2: "bbox_to_spherical ?b = SphericalBbox_init sps"
        unfolding pure sps by (simp add: err_bind_def)
      show ?thesis
      proof (cases "SphericalBbox_init sps")
        case (Inl e)
        then show ?thesis unfolding hp2 pure2 using sp2
          by (simp add: SphericalBbox_init_heap_def)
      next
        case (Inr sb)
        then have sb: "sph_points sb = sps"
          by (auto simp add: SphericalBbox_init_def split: if_splits)
        have r: "SphericalBbox_init_heap h2 (length h)
            = Inr (length h2, h2 @ [SphericalBboxObj (length h)])"
          using Inr sp2 by (simp add: SphericalBbox_init_heap_def alloc_def)
        have t: "take (length h) (h2 @ [SphericalBboxObj (length h)]) = h"
          using t2 l3 by simp
        have l1: "lookup (h2 @ [SphericalBboxObj (length h)]) (length h2)
            = Some (SphericalBboxObj (length h))"
          by (rule lookup_alloc_new)
        have l2: "lookup (h2 @ [SphericalBboxObj (length h)]) (length h)
            = Some (SphereList sps)"
          using sp2 by (rule lookup_append_Some)
        show ?thesis unfolding hp2 pure2 Inr r using t l1 l2 l3 sb
          by simp
      qed
    qed
  qed
qed

lemma get_points_as_xyxy_valid:
  assumes "CartesianBbox_init pts fm = Inr b"
  shows "\<exists>out. get_points_as_xyxy b = Inr out \<and> 2 \<le> length out \<and> even (length out)"
proof -
  from assms have b: "b = \<lparr>points = pts, fmt = fm\<rparr>" and len: "2 \<le> length pts" "even (length pts)"
    by (auto simp add: CartesianBbox_init_def split: if_splits)
  have "2 \<le> length (points b)" using b len by simp
  from get_points_as_xyxy_eq[OF this] b len show ?thesis
    by (auto simp add: from_xywh_to_xyxy_def from_cxcywh_to_xyxy_def getitem_def err_bind_def Let_def)
qed

lemma bbox_to_spherical_valid:
  assumes "CartesianBbox_init pts fm = Inr b"
  shows "\<exists>sps. bbox_to_spherical b = Inr (SphericalBbox sps)"
proof -
  from get_points_as_xyxy_valid[OF assms] obtain out where
    out: "get_points_as_xyxy b = Inr out" "2 \<le> length out" "even (length out)" by blast
  from convert_loop_total[of out "[]"] obtain sps where
    sps: "convert_loop out [] = Inr sps" "length sps = length out" by auto
  show ?thesis using out sps
    by (simp add: bbox_to_spherical_def err_bind_def SphericalBbox_init_def)
qed

text \<open>
  A box made by the constructor is an object that refers to a points list acceptable to
  \<open>CartesianBbox_init\<close>; on any such box a call that returns has only extended the store.
\<close>

lemma CartesianBbox_init_heap_box:
  assumes "CartesianBbox_init_heap h pref fm = Inr (self, h')"
  shows "\<exists>pts. lookup h' self = Some (CartesianBboxObj pref fm)
           \<and> lookup h' pref = Some (PointList pts)
           \<and> CartesianBbox_init pts fm = Inr \<lparr>points = pts, fmt = fm\<rparr>"
proof -
  from assms obtain pts b where
    p: "lookup h pref = Some (PointList pts)" and i: "CartesianBbox_init pts fm = Inr b"
    and r: "self = length h" "h' = h @ [CartesianBboxObj pref fm]"
    by (auto simp add: CartesianBbox_init_heap_def alloc_def split: option.splits obj.splits sum.splits)
  from i have "b = \<lparr>points = pts, fmt = fm\<rparr>"
    by (auto simp add: CartesianBbox_init_def split: if_splits)
  with i p r show ?thesis
    by (auto simp add: lookup_alloc_new lookup_append_Some)
qed

lemma get_points_as_xyxy_heap_frame:
  assumes "lookup h self = Some (CartesianBboxObj pref fm)"
    and "lookup h pref = Some (PointList ps)"
    and "get_points_as_xyxy_heap h self = Inr (r, h')"
  shows "take (length h) h' = h"
  using get_points_as_xyxy_heap_refines[OF assms(1,2)] assms(3)
  by (auto split: sum.splits)

lemma bbox_to_spherical_heap_frame:
  assumes "lookup h self = Some (CartesianBboxObj pref fm)"
    and "lookup h pref = Some (PointList ps)"
    and "bbox_to_spherical_heap h self = Inr (r, h')"
  shows "take (length h) h' = h"
  using bbox_to_spherical_heap_refines[OF assms(1,2)] assms(3)
  by (auto split: sum.splits)

lemma lookup_None_iff: "lookup h a = None \<longleftrightarrow> length h \<le> a"
  by (simp add: lookup_def)

text \<open>
  C9. The claim: \<open>get_points_as_xyxy\<close> and \<open>bbox_to_spherical\<close> never mutate the
  \<open>CartesianBbox\<close> they operate on, the box's points sequence and format tag being
  unchanged after either call, and normalisation builds its result as a new list. In
  \<open>xyxy\<close> format the method binds \<open>points = self.points\<close>, takes neither \<open>if\<close> and
  returns that list: on the box made from \<open>[(960,540), (1100,600)]\<close> the result is
  address \<open>0\<close>, the box's own points list, which was in the store before the call.
\<close>

theorem normalisation_xyxy_returns_own_list:
  "CartesianBbox_init_heap [PointList [Point2D 960 540, Point2D 1100 600]] 0 ''xyxy''
     = Inr (1, [PointList [Point2D 960 540, Point2D 1100 600], CartesianBboxObj 0 ''xyxy''])
   \<and> get_points_as_xyxy_heap
       [PointList [Point2D 960 540, Point2D 1100 600], CartesianBboxObj 0 ''xyxy''] 1
     = Inr (0, [PointList [Point2D 960 540, Point2D 1100 600], CartesianBboxObj 0 ''xyxy''])
   \<and> lookup [PointList [Point2D 960 540, Point2D 1100 600], CartesianBboxObj 0 ''xyxy''] 0
       \<noteq> None"
  by (simp add: CartesianBbox_init_heap_def CartesianBbox_init_def get_points_as_xyxy_heap_def
      lookup_def alloc_def err_bind_def)

text \<open>
  C9 as amended: \<open>get_points_as_xyxy\<close> and \<open>bbox_to_spherical\<close> never mutate the
  \<open>CartesianBbox\<close> they operate on. Called on a constructed box each returns, and every
  object that was in the store before the call is what it was, so the box still refers
  to the same points list, holding the same points, with the same format tag. The list
  \<open>get_points_as_xyxy\<close> returns holds the normalised points; in \<open>xywh\<close> and \<open>cxcywh\<close>
  format it is a new list, in \<open>xyxy\<close> format it is the box's own points list and nothing
  is allocated. The box \<open>bbox_to_spherical\<close> returns is a new object.
\<close>

theorem box_not_mutated:
  assumes "lookup h self = Some (CartesianBboxObj pref fm)"
    and "lookup h pref = Some (PointList pts)"
    and "CartesianBbox_init pts fm = Inr b"
  shows "(\<exists>r h' out. get_points_as_xyxy_heap h self = Inr (r, h')
            \<and> take (length h) h' = h
            \<and> lookup h' self = Some (CartesianBboxObj pref fm)
            \<and> lookup h' pref = Some (PointList pts)
            \<and> get_points_as_xyxy b = Inr out
            \<and> lookup h' r = Some (PointList out)
            \<and> (if fm = ''xyxy'' then r = pref \<and> h' = h else lookup h r = None))
       \<and> (\<exists>r h'. bbox_to_spherical_heap h self = Inr (r, h')
            \<and> take (length h) h' = h
            \<and> lookup h' self = Some (CartesianBboxObj pref fm)
            \<and> lookup h' pref = Some (PointList pts)
            \<and> lookup h r = None)"
proof -
  from assms(3) have b: "b = \<lparr>points = pts, fmt = fm\<rparr>"
    and fm: "fm = ''xyxy'' \<or> fm = ''xywh'' \<or> fm = ''cxcywh''"
    by (auto simp add: CartesianBbox_init_def split: if_splits)
  have keep: "lookup (h @ ys) self = Some (CartesianBboxObj pref fm)
      \<and> lookup (h @ ys) pref = Some (PointList pts)" for ys
    using assms(1,2) by (simp add: lookup_append_Some)
  from get_points_as_xyxy_valid[OF assms(3)] obtain out where
    out: "get_points_as_xyxy b = Inr out" by blast
  with get_points_as_xyxy_heap_refines[OF assms(1,2)] obtain r ys where
    g: "get_points_as_xyxy_heap h self = Inr (r, h @ ys)"
    and gl: "lookup (h @ ys) r = Some (PointList out)"
    and gn: "if fm = ''xywh'' \<or> fm = ''cxcywh'' then length h \<le> r else r = pref \<and> ys = []"
    unfolding b by auto
  have new: "if fm = ''xyxy'' then r = pref \<and> h @ ys = h else lookup h r = None"
    using gn fm by (auto simp add: lookup_None_iff)
  have first: "\<exists>r h' out. get_points_as_xyxy_heap h self = Inr (r, h')
            \<and> take (length h) h' = h
            \<and> lookup h' self = Some (CartesianBboxObj pref fm)
            \<and> lookup h' pref = Some (PointList pts)
            \<and> get_points_as_xyxy b = Inr out
            \<and> lookup h' r = Some (PointList out)
            \<and> (if fm = ''xyxy'' then r = pref \<and> h' = h else lookup h r = None)"
  proof (intro exI conjI)
    show "get_points_as_xyxy_heap h self = Inr (r, h @ ys)" by (rule g)
    show "take (length h) (h @ ys) = h" by simp
    show "lookup (h @ ys) self = Some (CartesianBboxObj pref fm)" using keep by blast
    show "lookup (h @ ys) pref = Some (PointList pts)" using keep by blast
    show "get_points_as_xyxy b = Inr out" by (rule out)
    show "lookup (h @ ys) r = Some (PointList out)" by (rule gl)
    show "if fm = ''xyxy'' then r = pref \<and> h @ ys = h else lookup h r = None" by (rule new)
  qed
  from bbox_to_spherical_valid[OF assms(3)] obtain sps where
    "bbox_to_spherical \<lparr>points = pts, fmt = fm\<rparr> = Inr (SphericalBbox sps)" unfolding b by blast
  with bbox_to_spherical_heap_refines[OF assms(1,2)] obtain r' h' where
    s: "bbox_to_spherical_heap h self = Inr (r', h')" "take (length h) h' = h" "length h < r'"
    by auto
  from s(2) obtain zs where zs: "h' = h @ zs" by (metis append_take_drop_id)
  have second: "\<exists>r h'. bbox_to_spherical_heap h self = Inr (r, h')
            \<and> take (length h) h' = h
            \<and> lookup h' self = Some (CartesianBboxObj pref fm)
            \<and> lookup h' pref = Some (PointList pts)
            \<and> lookup h r = None"
    using s keep[of zs] unfolding zs by (auto simp add: lookup_None_iff)
  from first second show ?thesis by (rule conjI)
qed

theorem box_not_mutated_witness:
  "(\<exists>r h'. get_points_as_xyxy_heap
               [PointList [Point2D 10 10, Point2D 5 5], CartesianBboxObj 0 ''xywh''] 1
             = Inr (r, h')
        \<and> take 2 h' = [PointList [Point2D 10 10, Point2D 5 5], CartesianBboxObj 0 ''xywh'']
        \<and> lookup h' r = Some (PointList [Point2D 10 10, Point2D 15 15])
        \<and> lookup [PointList [Point2D 10 10, Point2D 5 5], CartesianBboxObj 0 ''xywh''] r = None)
   \<and> (\<exists>r h'. get_points_as_xyxy_heap
               [PointList [Point2D 960 540, Point2D 1100 600], CartesianBboxObj 0 ''xyxy''] 1
             = Inr (r, h')
        \<and> r = 0
        \<and> h' = [PointList [Point2D 960 540, Point2D 1100 600], CartesianBboxObj 0 ''xyxy''])
   \<and> (\<exists>r h'. bbox_to_spherical_heap
               [PointList [Point2D 960 540, Point2D 1100 600], CartesianBboxObj 0 ''xyxy''] 1
             = Inr (r, h')
        \<and> take 2 h' = [PointList [Point2D 960 540, Point2D 1100 600], CartesianBboxObj 0 ''xyxy'']
        \<and> lookup [PointList [Point2D 960 540, Point2D 1100 600], CartesianBboxObj 0 ''xyxy''] r
            = None)"
proof -
  let ?h = "[PointList [Point2D 10 10, Point2D 5 5], CartesianBboxObj 0 ''xywh'']"
  let ?k = "[PointList [Point2D 960 540, Point2D 1100 600], CartesianBboxObj 0 ''xyxy'']"
  have two: "take 2 xs = take (length ?h) xs" "take 2 xs = take (length ?k) xs" for xs :: heap
    by (simp_all add: numeral_2_eq_2)
  have hb: "lookup ?h 1 = Some (CartesianBboxObj 0 ''xywh'')" by (simp add: lookup_def)
  have hp: "lookup ?h 0 = Some (PointList [Point2D 10 10, Point2D 5 5])" by (simp add: lookup_def)
  have hi: "CartesianBbox_init [Point2D 10 10, Point2D 5 5] ''xywh''
      = Inr \<lparr>points = [Point2D 10 10, Point2D 5 5], fmt = ''xywh''\<rparr>"
    by (simp add: CartesianBbox_init_def)
  have hn: "get_points_as_xyxy \<lparr>points = [Point2D 10 10, Point2D 5 5], fmt = ''xywh''\<rparr>
      = Inr [Point2D 10 10, Point2D 15 15]"
    by (simp add: get_points_as_xyxy_eq from_xywh_to_xyxy_def getitem_def err_bind_def)
  have kb: "lookup ?k 1 = Some (CartesianBboxObj 0 ''xyxy'')" by (simp add: lookup_def)
  have kp: "lookup ?k 0 = Some (PointList [Point2D 960 540, Point2D 1100 600])"
    by (simp add: lookup_def)
  have ki: "CartesianBbox_init [Point2D 960 540, Point2D 1100 600] ''xyxy''
      = Inr \<lparr>points = [Point2D 960 540, Point2D 1100 600], fmt = ''xyxy''\<rparr>"
    by (simp add: CartesianBbox_init_def)
  from box_not_mutated[OF hb hp hi] have a: "\<exists>r h'. get_points_as_xyxy_heap ?h 1 = Inr (r, h')
        \<and> take 2 h' = ?h
        \<and> lookup h' r = Some (PointList [Point2D 10 10, Point2D 15 15])
        \<and> lookup ?h r = None"
    unfolding hn two(1) by auto
  from box_not_mutated[OF kb kp ki] have b: "\<exists>r h'. get_points_as_xyxy_heap ?k 1 = Inr (r, h')
        \<and> r = 0 \<and> h' = ?k"
    and c: "\<exists>r h'. bbox_to_spherical_heap ?k 1 = Inr (r, h')
        \<and> take 2 h' = ?k \<and> lookup ?k r = None"
    unfolding two(2) by auto
  from a b c show ?thesis by blast
qed

end
